theory Spec2Isabelle
  imports Main "HOL-Library.Word"
begin

unbundle bit_operations_syntax

section \<open>Task handles and promises (task.h)\<close>

text \<open>
  A raw pointer (\<^verbatim>\<open>void*\<close>, \<^verbatim>\<open>coroutine_handle::address()\<close>) is a natural number;
  \<open>0\<close> is \<^verbatim>\<open>nullptr\<close>. The coroutine frames live in a heap that maps each address to
  its promise. \<open>destroyed\<close> counts the calls of \<^verbatim>\<open>handle.destroy()\<close> on the frame, so
  that a second destruction is visible in the model.
\<close>

type_synonym addr = nat

record Promise =
  ref_count :: int
  is_running :: bool
  continuation :: addr
  destroyed :: nat

type_synonym heap = "addr \<Rightarrow> Promise"

record Task =
  handle :: addr

text \<open>\<^verbatim>\<open>Promise\<close>'s member initialisers: \<^verbatim>\<open>ref_count{1}\<close>, \<^verbatim>\<open>is_running{false}\<close>,
  \<^verbatim>\<open>continuation = nullptr\<close>.\<close>

definition new_Promise :: Promise where
  "new_Promise = \<lparr>ref_count = 1, is_running = False, continuation = 0, destroyed = 0\<rparr>"

text \<open>\<^verbatim>\<open>ref_count.fetch_add(1)\<close> and \<^verbatim>\<open>handle.destroy()\<close> on the promise at an address.\<close>

definition fetch_add_ref :: "addr \<Rightarrow> heap \<Rightarrow> heap" where
  "fetch_add_ref a h = h(a := (h a)\<lparr>ref_count := ref_count (h a) + 1\<rparr>)"

definition destroy :: "addr \<Rightarrow> heap \<Rightarrow> heap" where
  "destroy a h = h(a := (h a)\<lparr>destroyed := Suc (destroyed (h a))\<rparr>)"

text \<open>\<^verbatim>\<open>Task()\<close>, \<^verbatim>\<open>explicit Task(h)\<close> (+1), \<^verbatim>\<open>Task(h, AdoptTag)\<close> (unchanged),
  the copy constructor (+1).\<close>

definition Task_empty :: Task where
  "Task_empty = \<lparr>handle = 0\<rparr>"

definition Task_of_handle :: "addr \<Rightarrow> heap \<Rightarrow> Task \<times> heap" where
  "Task_of_handle a h = (\<lparr>handle = a\<rparr>, if a \<noteq> 0 then fetch_add_ref a h else h)"

definition Task_adopt :: "addr \<Rightarrow> heap \<Rightarrow> Task \<times> heap" where
  "Task_adopt a h = (\<lparr>handle = a\<rparr>, h)"

definition Task_copy :: "Task \<Rightarrow> heap \<Rightarrow> Task \<times> heap" where
  "Task_copy o' h =
     (\<lparr>handle = handle o'\<rparr>, if handle o' \<noteq> 0 then fetch_add_ref (handle o') h else h)"

text \<open>\<^verbatim>\<open>dec_ref\<close>: \<^verbatim>\<open>fetch_sub(1)\<close> returns the old value; the frame is destroyed when
  the old value was 1.\<close>

definition dec_ref :: "Task \<Rightarrow> heap \<Rightarrow> heap" where
  "dec_ref t h =
     (let old = ref_count (h (handle t));
          h' = h(handle t := (h (handle t))\<lparr>ref_count := old - 1\<rparr>)
      in if old = 1 then destroy (handle t) h' else h')"

text \<open>\<^verbatim>\<open>~Task() { if (handle) dec_ref(); }\<close>\<close>

definition Task_dtor :: "Task \<Rightarrow> heap \<Rightarrow> heap" where
  "Task_dtor t h = (if handle t \<noteq> 0 then dec_ref t h else h)"

text \<open>\<^verbatim>\<open>detach\<close> returns the raw pointer and the task with its handle nulled;
  \<^verbatim>\<open>to_address\<close> increments and returns the address; \<^verbatim>\<open>from_address\<close> adopts.
  Each takes the heap and returns it, so that what it does to the promise is
  part of its result.\<close>

definition detach :: "Task \<Rightarrow> heap \<Rightarrow> addr \<times> Task \<times> heap" where
  "detach t h =
     (let ptr = (if handle t \<noteq> 0 then handle t else 0)
      in (ptr, t\<lparr>handle := 0\<rparr>, h))"

definition to_address :: "Task \<Rightarrow> heap \<Rightarrow> addr \<times> heap" where
  "to_address t h =
     (if handle t \<noteq> 0 then (handle t, fetch_add_ref (handle t) h) else (0, h))"

definition from_address :: "addr \<Rightarrow> heap \<Rightarrow> Task \<times> heap" where
  "from_address ptr h = (if ptr = 0 then (Task_empty, h) else Task_adopt ptr h)"

section \<open>Parker, global queue and scheduler (parker.h, queue.h, scheduler.h)\<close>

datatype ParkerState = EMPTY | PARKED | NOTIFIED

text \<open>\<^verbatim>\<open>unpark\<close> stores \<open>NOTIFIED\<close> whatever the state was; the \<^verbatim>\<open>notify_one\<close> after an
  old state \<open>PARKED\<close> unblocks the parked thread and changes no field.\<close>

record Worker =
  worker_id :: nat
  parker :: ParkerState

definition unpark :: "ParkerState \<Rightarrow> ParkerState" where
  "unpark old = NOTIFIED"

definition Worker_wake :: "Worker \<Rightarrow> Worker" where
  "Worker_wake w = w\<lparr>parker := unpark (parker w)\<rparr>"

text \<open>The scheduler state that \<^verbatim>\<open>spawn\<close> touches: the global queue (a deque of tasks,
  pushed at the back and popped at the front), the workers, and the function-local
  static counter \<^verbatim>\<open>next\<close> (a \<^verbatim>\<open>size_t\<close>).\<close>

record Scheduler =
  global_queue :: "Task list"
  workers :: "Worker list"
  next_counter :: "64 word"

record Runtime =
  promises :: heap
  sched :: Scheduler

definition GlobalQueue_push :: "Task \<Rightarrow> Scheduler \<Rightarrow> Scheduler" where
  "GlobalQueue_push item s = s\<lparr>global_queue := global_queue s @ [item]\<rparr>"

definition push_ptr :: "addr \<Rightarrow> Runtime \<Rightarrow> Runtime" where
  "push_ptr ptr r =
     (let (item, h) = from_address ptr (promises r)
      in r\<lparr>promises := h, sched := GlobalQueue_push item (sched r)\<rparr>)"

definition pop_global :: "Scheduler \<Rightarrow> Task option \<times> Scheduler" where
  "pop_global s =
     (case global_queue s of
        [] \<Rightarrow> (None, s)
      | item # rest \<Rightarrow> (Some item, s\<lparr>global_queue := rest\<rparr>))"

text \<open>\<^verbatim>\<open>workers[next.fetch_add(1) % workers.size()]->wake()\<close>: the index uses the
  counter's old value.\<close>

definition wake_next :: "Scheduler \<Rightarrow> Scheduler" where
  "wake_next s =
     (let i = unat (next_counter s) mod length (workers s)
      in s\<lparr>next_counter := next_counter s + 1,
            workers := (workers s)[i := Worker_wake (workers s ! i)]\<rparr>)"

text \<open>\<^verbatim>\<open>Scheduler::spawn(Task t)\<close>: the parameter \<open>t\<close> is detached; at the end of the
  call its destructor runs on the detached (null) task.\<close>

definition spawn :: "Task \<Rightarrow> Runtime \<Rightarrow> Runtime" where
  "spawn t r =
     (let (ptr, t', h) = detach t (promises r);
          r1 = r\<lparr>promises := h\<rparr>;
          r2 = (if ptr \<noteq> 0 then
                  let r' = push_ptr ptr r1
                  in if workers (sched r') \<noteq> [] then r'\<lparr>sched := wake_next (sched r')\<rparr>
                     else r'
                else r1)
      in r2\<lparr>promises := Task_dtor t' (promises r2)\<rparr>)"

text \<open>\<^verbatim>\<open>sched.spawn(Task::from_address(h.address()))\<close>, the way every primitive and
  the reactor hand a suspended coroutine back to the scheduler.\<close>

definition spawn_from_address :: "addr \<Rightarrow> Runtime \<Rightarrow> Runtime" where
  "spawn_from_address a r =
     (let (t, h) = from_address a (promises r) in spawn t (r\<lparr>promises := h\<rparr>))"

section \<open>Channel (channel.h)\<close>

text \<open>
  A \<^verbatim>\<open>SendAwaiter\<close> and a \<^verbatim>\<open>RecvAwaiter\<close> live in the frame of the awaiting
  coroutine; the channel's waiter queues point into them (\<^verbatim>\<open>value_ptr\<close>,
  \<^verbatim>\<open>result_ptr\<close>). The awaiters are therefore kept in a store indexed by the
  awaiter's address, and a waiter's pointer is that address.
\<close>

record 'a SendAwaiter =
  send_value :: 'a
  send_result :: bool

record 'a RecvAwaiter =
  recv_result :: "'a option"

record SenderWaiter =
  sender_handle :: addr
  value_ptr :: addr

record RecvWaiter =
  receiver_handle :: addr
  result_ptr :: addr

record 'a Channel =
  capacity :: nat
  closed :: bool
  buffer :: "'a list"
  send_waiters :: "SenderWaiter list"
  recv_waiters :: "RecvWaiter list"

record 'a ChannelWorld =
  chan :: "'a Channel"
  send_awaiters :: "addr \<Rightarrow> 'a SendAwaiter"
  recv_awaiters :: "addr \<Rightarrow> 'a RecvAwaiter"
  runtime :: Runtime

text \<open>The constructor: \<^verbatim>\<open>capacity_(capacity), closed_(false)\<close>, empty queues.\<close>

definition Channel_new :: "nat \<Rightarrow> 'a Channel" where
  "Channel_new k =
     \<lparr>capacity = k, closed = False, buffer = [], send_waiters = [], recv_waiters = []\<rparr>"

text \<open>\<^verbatim>\<open>send(val)\<close> builds \<^verbatim>\<open>SendAwaiter{*this, val}\<close> with \<^verbatim>\<open>result = true\<close>;
  \<^verbatim>\<open>recv()\<close> builds \<^verbatim>\<open>RecvAwaiter{*this}\<close> with an empty optional. \<open>self\<close> is
  the address at which the awaiter is built.\<close>

definition Channel_send :: "addr \<Rightarrow> 'a \<Rightarrow> 'a ChannelWorld \<Rightarrow> 'a ChannelWorld" where
  "Channel_send self val w =
     w\<lparr>send_awaiters := (send_awaiters w)(self := \<lparr>send_value = val, send_result = True\<rparr>)\<rparr>"

definition Channel_recv :: "addr \<Rightarrow> 'a ChannelWorld \<Rightarrow> 'a ChannelWorld" where
  "Channel_recv self w =
     w\<lparr>recv_awaiters := (recv_awaiters w)(self := \<lparr>recv_result = None\<rparr>)\<rparr>"

text \<open>The two loops of \<^verbatim>\<open>close\<close>: every sender waiter is spawned; every receiver
  waiter gets \<^verbatim>\<open>nullopt\<close> written through a non-null \<^verbatim>\<open>result_ptr\<close> and is spawned.\<close>

fun wake_senders :: "SenderWaiter list \<Rightarrow> Runtime \<Rightarrow> Runtime" where
  "wake_senders [] r = r"
| "wake_senders (w # ws) r = wake_senders ws (spawn_from_address (sender_handle w) r)"

fun wake_receivers ::
  "RecvWaiter list \<Rightarrow> (addr \<Rightarrow> 'a RecvAwaiter) \<times> Runtime \<Rightarrow> (addr \<Rightarrow> 'a RecvAwaiter) \<times> Runtime"
where
  "wake_receivers [] st = st"
| "wake_receivers (w # ws) (ra, r) =
     wake_receivers ws
       (if result_ptr w \<noteq> 0 then ra(result_ptr w := \<lparr>recv_result = None\<rparr>) else ra,
        spawn_from_address (receiver_handle w) r)"

definition Channel_close :: "'a ChannelWorld \<Rightarrow> 'a ChannelWorld" where
  "Channel_close w =
     (if closed (chan w) then w
      else
        let r1 = wake_senders (send_waiters (chan w)) (runtime w);
            (ra, r2) = wake_receivers (recv_waiters (chan w)) (recv_awaiters w, r1)
        in w\<lparr>chan := (chan w)\<lparr>closed := True, send_waiters := [], recv_waiters := []\<rparr>,
              recv_awaiters := ra, runtime := r2\<rparr>)"

definition is_closed :: "'a ChannelWorld \<Rightarrow> bool" where
  "is_closed w = closed (chan w)"

text \<open>\<^verbatim>\<open>SendAwaiter::await_suspend(h)\<close> on the awaiter at \<open>self\<close>; the result is the
  returned bool (true: the coroutine suspends) and the new state.\<close>

definition SendAwaiter_await_suspend ::
  "addr \<Rightarrow> addr \<Rightarrow> 'a ChannelWorld \<Rightarrow> bool \<times> 'a ChannelWorld" where
  "SendAwaiter_await_suspend self h w =
     (let c = chan w; me = send_awaiters w self in
      if closed c then
        (False, w\<lparr>send_awaiters := (send_awaiters w)(self := me\<lparr>send_result := False\<rparr>)\<rparr>)
      else
        (case recv_waiters c of
           waiter # rest \<Rightarrow>
             (False,
              w\<lparr>recv_awaiters :=
                   (recv_awaiters w)(result_ptr waiter := \<lparr>recv_result = Some (send_value me)\<rparr>),
                 runtime := spawn_from_address (receiver_handle waiter) (runtime w),
                 chan := c\<lparr>recv_waiters := rest\<rparr>\<rparr>)
         | [] \<Rightarrow>
             if length (buffer c) < capacity c then
               (False, w\<lparr>chan := c\<lparr>buffer := buffer c @ [send_value me]\<rparr>\<rparr>)
             else
               (True,
                w\<lparr>chan := c\<lparr>send_waiters :=
                     send_waiters c @ [\<lparr>sender_handle = h, value_ptr = self\<rparr>]\<rparr>\<rparr>)))"

definition SendAwaiter_await_resume :: "addr \<Rightarrow> 'a ChannelWorld \<Rightarrow> bool" where
  "SendAwaiter_await_resume self w = send_result (send_awaiters w self)"

text \<open>\<^verbatim>\<open>RecvAwaiter::await_suspend(h)\<close> on the awaiter at \<open>self\<close>.\<close>

definition RecvAwaiter_await_suspend ::
  "addr \<Rightarrow> addr \<Rightarrow> 'a ChannelWorld \<Rightarrow> bool \<times> 'a ChannelWorld" where
  "RecvAwaiter_await_suspend self h w =
     (let c = chan w in
      case buffer c of
        front # rest \<Rightarrow>
          (let w1 = w\<lparr>recv_awaiters := (recv_awaiters w)(self := \<lparr>recv_result = Some front\<rparr>)\<rparr>
           in case send_waiters c of
                sender # others \<Rightarrow>
                  (False,
                   w1\<lparr>chan := c\<lparr>buffer := rest @ [send_value (send_awaiters w (value_ptr sender))],
                                send_waiters := others\<rparr>,
                      runtime := spawn_from_address (sender_handle sender) (runtime w)\<rparr>)
              | [] \<Rightarrow> (False, w1\<lparr>chan := c\<lparr>buffer := rest\<rparr>\<rparr>))
      | [] \<Rightarrow>
          (case send_waiters c of
             sender # others \<Rightarrow>
               (False,
                w\<lparr>recv_awaiters :=
                     (recv_awaiters w)(self :=
                        \<lparr>recv_result = Some (send_value (send_awaiters w (value_ptr sender)))\<rparr>),
                   runtime := spawn_from_address (sender_handle sender) (runtime w),
                   chan := c\<lparr>send_waiters := others\<rparr>\<rparr>)
           | [] \<Rightarrow>
               if closed c then
                 (False, w\<lparr>recv_awaiters := (recv_awaiters w)(self := \<lparr>recv_result = None\<rparr>)\<rparr>)
               else
                 (True,
                  w\<lparr>chan := c\<lparr>recv_waiters :=
                       recv_waiters c @ [\<lparr>receiver_handle = h, result_ptr = self\<rparr>]\<rparr>\<rparr>)))"

definition RecvAwaiter_await_resume :: "addr \<Rightarrow> 'a ChannelWorld \<Rightarrow> 'a option" where
  "RecvAwaiter_await_resume self w = recv_result (recv_awaiters w self)"

text \<open>The state invariant of a channel of capacity \<open>k\<close>, as three tests.\<close>

definition buffer_within_capacity :: "'a Channel \<Rightarrow> bool" where
  "buffer_within_capacity c = (length (buffer c) \<le> capacity c)"

definition no_receiver_beside_buffer :: "'a Channel \<Rightarrow> bool" where
  "no_receiver_beside_buffer c = (if buffer c \<noteq> [] then recv_waiters c = [] else True)"

definition no_sender_below_capacity :: "'a Channel \<Rightarrow> bool" where
  "no_sender_below_capacity c =
     (if length (buffer c) < capacity c then send_waiters c = [] else True)"

definition channel_invariant :: "'a Channel \<Rightarrow> bool" where
  "channel_invariant c =
     (buffer_within_capacity c \<and> no_receiver_beside_buffer c \<and> no_sender_below_capacity c)"

section \<open>Async mutex (async-mutex header)\<close>

record AsyncMutex =
  locked :: bool
  waiters :: "addr list"

definition AsyncMutex_new :: AsyncMutex where
  "AsyncMutex_new = \<lparr>locked = False, waiters = []\<rparr>"

definition LockAwaiter_await_ready :: "AsyncMutex \<Rightarrow> bool \<times> AsyncMutex" where
  "LockAwaiter_await_ready m =
     (if \<not> locked m then (True, m\<lparr>locked := True\<rparr>) else (False, m))"

definition LockAwaiter_await_suspend :: "addr \<Rightarrow> AsyncMutex \<Rightarrow> bool \<times> AsyncMutex" where
  "LockAwaiter_await_suspend h m =
     (if \<not> locked m then (False, m\<lparr>locked := True\<rparr>)
      else (True, m\<lparr>waiters := waiters m @ [h]\<rparr>))"

definition unlock :: "AsyncMutex \<times> Runtime \<Rightarrow> AsyncMutex \<times> Runtime" where
  "unlock mr =
     (let (m, r) = mr in
      case waiters m of
        [] \<Rightarrow> (m\<lparr>locked := False\<rparr>, r)
      | h # rest \<Rightarrow> (m\<lparr>waiters := rest\<rparr>, spawn_from_address h r))"

text \<open>A run of \<^verbatim>\<open>await_suspend\<close> calls by the coroutines \<open>hs\<close>, in this order.\<close>

fun suspend_all :: "addr list \<Rightarrow> AsyncMutex \<Rightarrow> AsyncMutex" where
  "suspend_all [] m = m"
| "suspend_all (h # hs) m = suspend_all hs (snd (LockAwaiter_await_suspend h m))"

section \<open>Steal deque (queue.h)\<close>

text \<open>
  The circular array of raw task pointers. \<^verbatim>\<open>put\<close> and \<^verbatim>\<open>get\<close> take a \<^verbatim>\<open>size_t\<close>
  index; the deque passes a \<^verbatim>\<open>long\<close>, which converts modulo \<open>2 ^ 64\<close>, and the slot
  is \<^verbatim>\<open>i & mask\<close> (the field \<open>mask_bits\<close>). \<open>top\<close> and \<open>bottom\<close> are \<^verbatim>\<open>long\<close>s that only ever move by one;
  they are integers here.
\<close>

record Array =
  slots :: "nat \<Rightarrow> addr"
  cap :: nat
  mask_bits :: nat

definition Array_new :: "nat \<Rightarrow> Array" where
  "Array_new c = \<lparr>slots = (\<lambda>i. 0), cap = c, mask_bits = c - 1\<rparr>"

definition slot_index :: "Array \<Rightarrow> int \<Rightarrow> nat" where
  "slot_index a i = nat ((i mod 2 ^ 64) AND int (mask_bits a))"

definition Array_put :: "int \<Rightarrow> addr \<Rightarrow> Array \<Rightarrow> Array" where
  "Array_put i p a = a\<lparr>slots := (slots a)(slot_index a i := p)\<rparr>"

definition Array_get :: "Array \<Rightarrow> int \<Rightarrow> addr" where
  "Array_get a i = slots a (slot_index a i)"

record StealQueue =
  top_idx :: int
  bottom :: int
  array :: Array

text \<open>The constructor: both indices 0 and \<^verbatim>\<open>new Array(1024)\<close>.\<close>

definition StealQueue_new :: StealQueue where
  "StealQueue_new = \<lparr>top_idx = 0, bottom = 0, array = Array_new 1024\<rparr>"

text \<open>\<^verbatim>\<open>top.compare_exchange_strong(t, t + 1)\<close>: succeeds, and stores, exactly when
  \<open>top\<close> still holds the expected value.\<close>

definition compare_exchange_top :: "int \<Rightarrow> int \<Rightarrow> StealQueue \<Rightarrow> bool \<times> StealQueue" where
  "compare_exchange_top expected desired q =
     (if top_idx q = expected then (True, q\<lparr>top_idx := desired\<rparr>) else (False, q))"

text \<open>
  \<^verbatim>\<open>steal\<close>, run without interruption, and the second half of a steal whose loads
  of \<open>top\<close> and \<open>bottom\<close> happened earlier: the thief's compare-and-swap from the
  value \<open>t\<close> it loaded.
\<close>

definition steal :: "StealQueue \<Rightarrow> heap \<Rightarrow> Task option \<times> StealQueue \<times> heap" where
  "steal q h =
     (let t = top_idx q; b = bottom q in
      if t < b then
        (let val = Array_get (array q) t in
         case compare_exchange_top t (t + 1) q of
           (False, q') \<Rightarrow> (None, q', h)
         | (True, q') \<Rightarrow> (let (task, h') = from_address val h in (Some task, q', h')))
      else (None, q, h))"

definition thief_cas :: "int \<Rightarrow> StealQueue \<Rightarrow> StealQueue" where
  "thief_cas t q = snd (compare_exchange_top t (t + 1) q)"

text \<open>
  The owner's \<^verbatim>\<open>pop\<close>. Other threads can run between the owner's load of \<open>top\<close>
  and its compare-and-swap; what they do to the deque in that window is the
  parameter \<open>thieves\<close> (the identity when nobody interferes). The slot is read
  before the compare-and-swap, as in the source.
\<close>

definition pop :: "(StealQueue \<Rightarrow> StealQueue) \<Rightarrow> StealQueue \<Rightarrow> heap \<Rightarrow>
    Task option \<times> StealQueue \<times> heap" where
  "pop thieves q h =
     (let b = bottom q - 1;
          q1 = q\<lparr>bottom := b\<rparr>;
          t = top_idx q1
      in if t \<le> b then
           (let val = Array_get (array q1) b in
            if t = b then
              (case compare_exchange_top t (t + 1) (thieves q1) of
                 (False, q2) \<Rightarrow> (None, q2\<lparr>bottom := b + 1\<rparr>, h)
               | (True, q2) \<Rightarrow>
                   (let (task, h') = from_address val h
                    in (Some task, q2\<lparr>bottom := b + 1\<rparr>, h')))
            else (let (task, h') = from_address val h in (Some task, q1, h')))
         else (None, q1\<lparr>bottom := b + 1\<rparr>, h))"

section \<open>Epoch-based reclamation (ebr.h)\<close>

text \<open>
  A retired node carries its pointer and its deleter; the only deleter \<^verbatim>\<open>retire\<close>
  builds is the lambda \<^verbatim>\<open>delete static_cast<T*>(p)\<close>. Running a deleter appends the
  pointer to the manager's log \<open>deleted\<close>. A \<^verbatim>\<open>LocalState*\<close> is the thread's position
  in the manager's list \<open>threads\<close>. Epochs and the operation counter are \<^verbatim>\<open>size_t\<close>.
\<close>

datatype Deleter = Delete_static_cast

record Node =
  node_ptr :: addr
  node_deleter :: Deleter

record LocalState =
  active :: bool
  epoch :: "64 word"
  retire_bins :: "nat \<Rightarrow> Node list"
  op_count :: "64 word"

record EbrManager =
  global_epoch :: "64 word"
  threads :: "LocalState list"
  deleted :: "addr list"

definition LocalState_new :: LocalState where
  "LocalState_new = \<lparr>active = False, epoch = 0, retire_bins = (\<lambda>i. []), op_count = 0\<rparr>"

definition EbrManager_new :: EbrManager where
  "EbrManager_new = \<lparr>global_epoch = 0, threads = [], deleted = []\<rparr>"

definition register_thread :: "EbrManager \<Rightarrow> nat \<times> EbrManager" where
  "register_thread m = (length (threads m), m\<lparr>threads := threads m @ [LocalState_new]\<rparr>)"

definition enter :: "nat \<Rightarrow> EbrManager \<Rightarrow> EbrManager" where
  "enter local m =
     m\<lparr>threads := (threads m)[local := (threads m ! local)\<lparr>epoch := global_epoch m,
                                                          active := True\<rparr>]\<rparr>"

definition exit :: "nat \<Rightarrow> EbrManager \<Rightarrow> EbrManager" where
  "exit local m = m\<lparr>threads := (threads m)[local := (threads m ! local)\<lparr>active := False\<rparr>]\<rparr>"

definition run_deleter :: "Node \<Rightarrow> addr list \<Rightarrow> addr list" where
  "run_deleter node log = (case node_deleter node of Delete_static_cast \<Rightarrow> log @ [node_ptr node])"

text \<open>The scan of \<^verbatim>\<open>try_advance\<close> returns early at the first thread that is active
  with an epoch other than the value read from the global epoch.\<close>

definition lagging :: "64 word \<Rightarrow> LocalState \<Rightarrow> bool" where
  "lagging global t = (active t \<and> epoch t \<noteq> global)"

definition clean_bin :: "nat \<Rightarrow> LocalState \<Rightarrow> LocalState" where
  "clean_bin idx t = t\<lparr>retire_bins := (retire_bins t)(idx := [])\<rparr>"

definition try_advance :: "nat \<Rightarrow> EbrManager \<Rightarrow> EbrManager" where
  "try_advance trigger_local m =
     (let global = global_epoch m in
      if list_ex (lagging global) (threads m) then m
      else
        let next = global + 1;
            safe_bin_idx = unat (next + 1) mod 3
        in m\<lparr>global_epoch := next,
              deleted := fold run_deleter
                           (concat (map (\<lambda>t. retire_bins t safe_bin_idx) (threads m)))
                           (deleted m),
              threads := map (clean_bin safe_bin_idx) (threads m)\<rparr>)"

text \<open>\<^verbatim>\<open>retire(local, ptr)\<close>, for a \<open>local\<close> that \<open>register_thread\<close> returned.\<close>

definition retire :: "nat \<Rightarrow> addr \<Rightarrow> EbrManager \<Rightarrow> EbrManager" where
  "retire local p m =
     (let e = global_epoch m;
          l = threads m ! local;
          l1 = l\<lparr>retire_bins := (retire_bins l)(unat e mod 3 :=
                  retire_bins l (unat e mod 3) @ [\<lparr>node_ptr = p, node_deleter = Delete_static_cast\<rparr>])\<rparr>;
          l2 = l1\<lparr>op_count := op_count l1 + 1\<rparr>
      in if 64 < op_count l2 then
           try_advance local (m\<lparr>threads := (threads m)[local := l2\<lparr>op_count := 0\<rparr>]\<rparr>)
         else m\<lparr>threads := (threads m)[local := l2]\<rparr>)"

section \<open>Poller (poller.h)\<close>

subsection \<open>The epoll variant\<close>

text \<open>
  An \<^verbatim>\<open>epoll_event\<close> has the event mask and the 8 bytes of the union
  \<^verbatim>\<open>epoll_data_t\<close>, whose members \<^verbatim>\<open>ptr\<close> (a pointer) and \<^verbatim>\<open>fd\<close> (an \<^verbatim>\<open>int\<close>)
  share their storage. Storing through \<^verbatim>\<open>fd\<close> writes the low 4 bytes (Linux on
  x86-64 and AArch64 is little-endian); reading \<^verbatim>\<open>ptr\<close> reads all 8.
\<close>

record epoll_event =
  events :: "32 word"
  data :: "64 word"

definition EPOLLIN :: "32 word" where "EPOLLIN = 0x001"
definition EPOLLOUT :: "32 word" where "EPOLLOUT = 0x004"
definition EPOLLRDHUP :: "32 word" where "EPOLLRDHUP = 0x2000"
definition EPOLLONESHOT :: "32 word" where "EPOLLONESHOT = 0x40000000"
definition EPOLLET :: "32 word" where "EPOLLET = 0x80000000"

text \<open>\<^verbatim>\<open>struct epoll_event ev = {}\<close>\<close>

definition zero_event :: epoll_event where
  "zero_event = \<lparr>events = 0, data = 0\<rparr>"

definition data_set_fd :: "int \<Rightarrow> 64 word \<Rightarrow> 64 word" where
  "data_set_fd fd d = (d AND NOT (mask 32)) OR (word_of_int fd AND mask 32)"

definition data_set_ptr :: "addr \<Rightarrow> 64 word \<Rightarrow> 64 word" where
  "data_set_ptr p d = word_of_nat p"

definition data_ptr :: "64 word \<Rightarrow> addr" where
  "data_ptr d = unat d"

text \<open>
  The kernel's side of an epoll instance, as far as the poller uses it: the interest
  list maps a registered descriptor to its event and to whether it is armed.
  \<^verbatim>\<open>EPOLL_CTL_ADD\<close> fails with \<^verbatim>\<open>EEXIST\<close> on a registered descriptor,
  \<^verbatim>\<open>EPOLL_CTL_MOD\<close> replaces the event and re-arms. \<^verbatim>\<open>epoll_wait\<close> reports, for
  each ready descriptor that is registered and armed, the event mask and the data
  given at registration, at most \<^verbatim>\<open>maxevents\<close> of them; a reported registration
  with \<^verbatim>\<open>EPOLLONESHOT\<close> is disarmed. Which descriptors are ready is the
  environment's choice, the parameter \<open>ready\<close>; \<^verbatim>\<open>epoll_wait\<close> itself does not
  fail. The eventfd is a counter: a write adds to it, a read resets it.
\<close>

record epitem =
  item_event :: epoll_event
  armed :: bool

record Poller =
  epoll_fd :: int
  wake_fd :: int
  interest :: "int \<Rightarrow> epitem option"
  eventfd_counter :: nat

datatype errno = EEXIST | ENOENT

definition epoll_ctl_add :: "int \<Rightarrow> epoll_event \<Rightarrow> Poller \<Rightarrow> errno option \<times> Poller" where
  "epoll_ctl_add fd ev p =
     (case interest p fd of
        Some _ \<Rightarrow> (Some EEXIST, p)
      | None \<Rightarrow> (None, p\<lparr>interest := (interest p)(fd := Some \<lparr>item_event = ev, armed = True\<rparr>)\<rparr>))"

definition epoll_ctl_mod :: "int \<Rightarrow> epoll_event \<Rightarrow> Poller \<Rightarrow> errno option \<times> Poller" where
  "epoll_ctl_mod fd ev p =
     (case interest p fd of
        None \<Rightarrow> (Some ENOENT, p)
      | Some _ \<Rightarrow> (None, p\<lparr>interest := (interest p)(fd := Some \<lparr>item_event = ev, armed = True\<rparr>)\<rparr>))"

fun epoll_wait :: "int list \<Rightarrow> Poller \<Rightarrow> epoll_event list \<times> Poller" where
  "epoll_wait [] p = ([], p)"
| "epoll_wait (fd # fds) p =
     (case interest p fd of
        None \<Rightarrow> epoll_wait fds p
      | Some it \<Rightarrow>
          if armed it then
            (let p' = (if events (item_event it) AND EPOLLONESHOT \<noteq> 0
                       then p\<lparr>interest := (interest p)(fd := Some (it\<lparr>armed := False\<rparr>))\<rparr>
                       else p);
                 (evs, p'') = epoll_wait fds p'
             in (item_event it # evs, p''))
          else epoll_wait fds p)"

text \<open>The constructor throws when \<^verbatim>\<open>epoll_create1\<close> or \<^verbatim>\<open>eventfd\<close> returns \<open>-1\<close>;
  the two descriptors the system calls returned are its parameters. Otherwise it
  registers the eventfd, storing the descriptor through the \<^verbatim>\<open>fd\<close> member.\<close>

datatype poller_error = Epoll_create1_failed | Eventfd_failed

definition Poller_init :: "int \<Rightarrow> int \<Rightarrow> Poller" where
  "Poller_init efd wfd =
     (let p = \<lparr>epoll_fd = efd, wake_fd = wfd, interest = (\<lambda>fd. None), eventfd_counter = 0\<rparr>;
          ev = zero_event\<lparr>events := EPOLLIN OR EPOLLET\<rparr>;
          ev' = ev\<lparr>data := data_set_fd wfd (data ev)\<rparr>
      in snd (epoll_ctl_add wfd ev' p))"

definition Poller_new :: "int \<Rightarrow> int \<Rightarrow> poller_error + Poller" where
  "Poller_new efd wfd =
     (if efd = - 1 then Inl Epoll_create1_failed
      else if wfd = - 1 then Inl Eventfd_failed
      else Inr (Poller_init efd wfd))"

definition wake :: "Poller \<Rightarrow> Poller" where
  "wake p = p\<lparr>eventfd_counter := eventfd_counter p + 1\<rparr>"

definition read_wake_fd :: "Poller \<Rightarrow> Poller" where
  "read_wake_fd p = p\<lparr>eventfd_counter := 0\<rparr>"

definition add_event :: "32 word \<Rightarrow> int \<Rightarrow> addr \<Rightarrow> Poller \<Rightarrow> Poller" where
  "add_event flags fd udata p =
     (let ev = zero_event\<lparr>events := flags\<rparr>;
          ev' = ev\<lparr>data := data_set_ptr udata (data ev)\<rparr>
      in case epoll_ctl_add fd ev' p of
           (Some EEXIST, p') \<Rightarrow> snd (epoll_ctl_mod fd ev' p')
         | (_, p') \<Rightarrow> p')"

definition add_read :: "int \<Rightarrow> addr \<Rightarrow> Poller \<Rightarrow> Poller" where
  "add_read fd udata p = add_event (EPOLLIN OR EPOLLONESHOT OR EPOLLRDHUP) fd udata p"

definition add_write :: "int \<Rightarrow> addr \<Rightarrow> Poller \<Rightarrow> Poller" where
  "add_write fd udata p = add_event (EPOLLOUT OR EPOLLONESHOT OR EPOLLRDHUP) fd udata p"

text \<open>The loop of \<^verbatim>\<open>wait\<close> over the reported events: an event whose \<^verbatim>\<open>data.ptr\<close> is
  null is taken for the eventfd's and the eventfd is read; any other event goes to
  the callback. The callback acts on a state of the caller's.\<close>

fun dispatch :: "epoll_event list \<Rightarrow> (addr \<Rightarrow> 's \<Rightarrow> 's) \<Rightarrow> Poller \<times> 's \<Rightarrow> Poller \<times> 's" where
  "dispatch [] callback ps = ps"
| "dispatch (e # es) callback (p, s) =
     (if data_ptr (data e) = 0 then dispatch es callback (read_wake_fd p, s)
      else dispatch es callback (p, callback (data_ptr (data e)) s))"

definition wait ::
  "int \<Rightarrow> (addr \<Rightarrow> 's \<Rightarrow> 's) \<Rightarrow> int list \<Rightarrow> Poller \<times> 's \<Rightarrow> int \<times> Poller \<times> 's" where
  "wait timeout_ms callback ready ps =
     (let (evs, p1) = epoll_wait (take 128 ready) (fst ps);
          (p2, s2) = dispatch evs callback (p1, snd ps)
      in (int (length evs), p2, s2))"

subsection \<open>The kqueue variant\<close>

text \<open>The loop of the kqueue \<^verbatim>\<open>wait\<close> over the events \<^verbatim>\<open>kevent\<close> returned: an
  \<^verbatim>\<open>EVFILT_USER\<close> event is skipped; any other event with a non-null \<^verbatim>\<open>udata\<close>
  goes to the callback.\<close>

datatype kfilter = EVFILT_READ | EVFILT_WRITE | EVFILT_USER

record kevent =
  kev_ident :: int
  kev_filter :: kfilter
  kev_udata :: addr

fun kqueue_dispatch :: "kevent list \<Rightarrow> (addr \<Rightarrow> 's \<Rightarrow> 's) \<Rightarrow> 's \<Rightarrow> 's" where
  "kqueue_dispatch [] callback s = s"
| "kqueue_dispatch (e # es) callback s =
     (if kev_filter e = EVFILT_USER then kqueue_dispatch es callback s
      else if kev_udata e \<noteq> 0 then kqueue_dispatch es callback (callback (kev_udata e) s)
      else kqueue_dispatch es callback s)"

section \<open>Reactor, sleep and the I/O awaiters (scheduler.h, socket.h)\<close>

text \<open>
  A time point is an integer number of milliseconds. The timer heap is a
  \<^verbatim>\<open>priority_queue\<close> ordered by \<^verbatim>\<open>std::greater\<close>, a min-heap on the expiry: it is
  the list of its timers in ascending order of expiry, \<^verbatim>\<open>top()\<close> its head.
\<close>

record Timer =
  expiry :: int
  timer_handle :: addr

record Reactor =
  poller :: Poller
  timers :: "Timer list"
  running :: bool

definition register_read :: "int \<Rightarrow> addr \<Rightarrow> Reactor \<Rightarrow> Reactor" where
  "register_read fd h r = r\<lparr>poller := add_read fd h (poller r)\<rparr>"

definition register_write :: "int \<Rightarrow> addr \<Rightarrow> Reactor \<Rightarrow> Reactor" where
  "register_write fd h r = r\<lparr>poller := add_write fd h (poller r)\<rparr>"

definition add_timer :: "int \<Rightarrow> addr \<Rightarrow> Reactor \<Rightarrow> Reactor" where
  "add_timer exp h r =
     (let r1 = r\<lparr>timers := insort_key expiry \<lparr>expiry = exp, timer_handle = h\<rparr> (timers r)\<rparr>;
          need_wake = (case timers r1 of [] \<Rightarrow> False | t # _ \<Rightarrow> expiry t = exp)
      in if need_wake then r1\<lparr>poller := wake (poller r1)\<rparr> else r1)"

text \<open>The lambda \<^verbatim>\<open>io_handler\<close> of \<^verbatim>\<open>Reactor::loop\<close>.\<close>

definition io_handler :: "addr \<Rightarrow> Runtime \<Rightarrow> Runtime" where
  "io_handler udata rt = (if udata \<noteq> 0 then spawn_from_address udata rt else rt)"

text \<open>The loop over the expired timers: pop and spawn while the earliest has
  expired.\<close>

fun fire_timers :: "int \<Rightarrow> Timer list \<Rightarrow> Runtime \<Rightarrow> Timer list \<times> Runtime" where
  "fire_timers now [] rt = ([], rt)"
| "fire_timers now (t # ts) rt =
     (if expiry t \<le> now then fire_timers now ts (spawn_from_address (timer_handle t) rt)
      else (t # ts, rt))"

text \<open>One turn of the loop of \<^verbatim>\<open>Reactor::loop\<close>. The environment gives the clock
  reading before the wait, the descriptors that are ready, and the clock reading
  after the wait. The timeout is the distance to the earliest timer in
  milliseconds (the cast to \<^verbatim>\<open>int\<close> is left out); the wait of the model does not
  depend on it.\<close>

definition loop_iteration :: "int \<times> int list \<times> int \<Rightarrow> Reactor \<times> Runtime \<Rightarrow> Reactor \<times> Runtime" where
  "loop_iteration env st =
     (let (now1, ready, now2) = env;
          (r, rt) = st;
          timeout_ms = (case timers r of
                          [] \<Rightarrow> - 1
                        | t # _ \<Rightarrow> if expiry t \<le> now1 then 0 else expiry t - now1);
          (n, p1, rt1) = wait timeout_ms io_handler ready (poller r, rt);
          (ts, rt2) = fire_timers now2 (timers r) rt1
      in (r\<lparr>poller := p1, timers := ts\<rparr>, rt2))"

text \<open>\<^verbatim>\<open>while (running_)\<close>: one turn for each input of the environment, for as long
  as the flag is set.\<close>

fun loop :: "(int \<times> int list \<times> int) list \<Rightarrow> Reactor \<times> Runtime \<Rightarrow> Reactor \<times> Runtime" where
  "loop [] st = st"
| "loop (env # envs) (r, rt) =
     (if running r then loop envs (loop_iteration env (r, rt)) else (r, rt))"

text \<open>\<^verbatim>\<open>await_suspend\<close> of the read, write and accept awaiters: increment the
  awaiting coroutine's count, then register its address. \<^verbatim>\<open>await_suspend\<close> of
  \<^verbatim>\<open>AsyncSleep\<close>: compute the expiry and add the timer.\<close>

definition AsyncReadAwaiter_await_suspend ::
  "int \<Rightarrow> addr \<Rightarrow> Reactor \<times> Runtime \<Rightarrow> Reactor \<times> Runtime" where
  "AsyncReadAwaiter_await_suspend fd h st =
     (let (r, rt) = st;
          rt1 = rt\<lparr>promises := fetch_add_ref h (promises rt)\<rparr>
      in (register_read fd h r, rt1))"

definition AsyncWriteAwaiter_await_suspend ::
  "int \<Rightarrow> addr \<Rightarrow> Reactor \<times> Runtime \<Rightarrow> Reactor \<times> Runtime" where
  "AsyncWriteAwaiter_await_suspend fd h st =
     (let (r, rt) = st;
          rt1 = rt\<lparr>promises := fetch_add_ref h (promises rt)\<rparr>
      in (register_write fd h r, rt1))"

definition AsyncAcceptAwaiter_await_suspend ::
  "int \<Rightarrow> addr \<Rightarrow> Reactor \<times> Runtime \<Rightarrow> Reactor \<times> Runtime" where
  "AsyncAcceptAwaiter_await_suspend fd h st =
     (let (r, rt) = st;
          rt1 = rt\<lparr>promises := fetch_add_ref h (promises rt)\<rparr>
      in (register_read fd h r, rt1))"

definition AsyncSleep_await_suspend ::
  "int \<Rightarrow> int \<Rightarrow> addr \<Rightarrow> Reactor \<times> Runtime \<Rightarrow> Reactor \<times> Runtime" where
  "AsyncSleep_await_suspend now duration h st =
     (let (r, rt) = st;
          exp = now + duration
      in (add_timer exp h r, rt))"

section \<open>Example states\<close>

text \<open>A runtime with one parked worker and an empty global queue, and an unbuffered
  channel of naturals on it; the concrete instances below start from them.\<close>

definition example_runtime :: Runtime where
  "example_runtime =
     \<lparr>promises = (\<lambda>a. new_Promise),
      sched = \<lparr>global_queue = [], workers = [\<lparr>worker_id = 0, parker = PARKED\<rparr>],
               next_counter = 0\<rparr>\<rparr>"

definition example_channel_world :: "nat \<Rightarrow> nat ChannelWorld" where
  "example_channel_world k =
     \<lparr>chan = Channel_new k,
      send_awaiters = (\<lambda>a. \<lparr>send_value = 0, send_result = True\<rparr>),
      recv_awaiters = (\<lambda>a. \<lparr>recv_result = None\<rparr>),
      runtime = example_runtime\<rparr>"

definition example_reactor :: Reactor where
  "example_reactor = \<lparr>poller = Poller_init 3 4, timers = [], running = True\<rparr>"

definition example_ebr :: EbrManager where
  "example_ebr = snd (register_thread EbrManager_new)"

definition example_deque :: StealQueue where
  "example_deque =
     \<lparr>top_idx = 0, bottom = 2,
      array = Array_put 1 101 (Array_put 0 100 (Array_new 1024))\<rparr>"

text \<open>A callback that records the pointers it is called with, in order.\<close>

definition log_callback :: "addr \<Rightarrow> addr list \<Rightarrow> addr list" where
  "log_callback u log = log @ [u]"

section \<open>Properties of task handles and of spawn\<close>

lemma detach_result: "detach t h = (handle t, t\<lparr>handle := 0\<rparr>, h)"
  by (simp add: detach_def)

lemma from_address_nonnull: "p \<noteq> 0 \<Longrightarrow> from_address p h = (\<lparr>handle = p\<rparr>, h)"
  by (simp add: from_address_def Task_adopt_def)

lemma spawn_nonnull:
  "handle t \<noteq> 0 \<Longrightarrow> spawn t r =
     r\<lparr>sched := (let s = GlobalQueue_push \<lparr>handle = handle t\<rparr> (sched r)
                   in if workers s \<noteq> [] then wake_next s else s)\<rparr>"
  by (simp add: spawn_def detach_def push_ptr_def from_address_nonnull Task_dtor_def
      GlobalQueue_push_def Let_def)

lemma spawn_promises [simp]: "promises (spawn t r) = promises r"
  by (simp add: spawn_def detach_def push_ptr_def from_address_def Task_adopt_def
      Task_dtor_def Let_def split: prod.splits)

lemma wake_next_global_queue: "global_queue (wake_next s) = global_queue s"
  by (simp add: wake_next_def Let_def)

lemma spawn_from_address_global_queue:
  "a \<noteq> 0 \<Longrightarrow>
   global_queue (sched (spawn_from_address a r)) = global_queue (sched r) @ [\<lparr>handle = a\<rparr>]"
  by (simp add: spawn_from_address_def from_address_nonnull spawn_nonnull Let_def
      wake_next_global_queue GlobalQueue_push_def)

lemma spawn_from_address_promises [simp]:
  "promises (spawn_from_address a r) = promises r"
  by (simp add: spawn_from_address_def from_address_def Task_adopt_def split: prod.splits)

text \<open>
  Claim C8. For a task holding a non-null handle, \<open>detach\<close> returns the raw promise
  address and nulls the handle, leaving the heap (and so the reference count) as it
  was; \<open>from_address\<close> on that pointer gives back a handle to the same promise
  without incrementing; after the two, every promise's reference count is what it was
  before \<open>detach\<close>.
\<close>

theorem detach_from_address_preserves_ref_count:
  assumes "handle t \<noteq> 0"
  shows "case detach t h of (ptr, t', h1) \<Rightarrow>
           ptr = handle t \<and> handle t' = 0 \<and> h1 = h \<and>
           (case from_address ptr h1 of (t2, h2) \<Rightarrow>
              handle t2 = handle t \<and> h2 = h \<and>
              ref_count (h2 (handle t)) = ref_count (h (handle t)))"
  using assms by (simp add: detach_def from_address_def Task_adopt_def)

theorem detach_from_address_preserves_ref_count_witness:
  "case detach \<lparr>handle = 7\<rparr> (\<lambda>a. new_Promise) of (ptr, t', h1) \<Rightarrow>
     ptr = 7 \<and> handle t' = 0 \<and> h1 = (\<lambda>a. new_Promise) \<and>
     (case from_address ptr h1 of (t2, h2) \<Rightarrow>
        handle t2 = 7 \<and> h2 = (\<lambda>a. new_Promise) \<and> ref_count (h2 7) = 1)"
  using detach_from_address_preserves_ref_count [of "\<lparr>handle = 7\<rparr>" "\<lambda>a. new_Promise"]
  by (simp add: new_Promise_def)

text \<open>
  Claim C9. \<open>spawn\<close> of an empty task (null handle) changes nothing: \<open>detach\<close> returns
  the null pointer, the global queue, the round-robin counter, the workers and the
  promises are all as before.
\<close>

theorem spawn_empty_task_noop:
  assumes "handle t = 0"
  shows "fst (detach t (promises r)) = 0 \<and> spawn t r = r"
  using assms by (simp add: spawn_def detach_def Task_dtor_def)

theorem spawn_empty_task_noop_witness:
  "fst (detach Task_empty (\<lambda>a. new_Promise)) = 0 \<and>
   spawn Task_empty
     \<lparr>promises = (\<lambda>a. new_Promise),
      sched = \<lparr>global_queue = [\<lparr>handle = 5\<rparr>],
               workers = [\<lparr>worker_id = 0, parker = PARKED\<rparr>], next_counter = 3\<rparr>\<rparr>
   = \<lparr>promises = (\<lambda>a. new_Promise),
      sched = \<lparr>global_queue = [\<lparr>handle = 5\<rparr>],
               workers = [\<lparr>worker_id = 0, parker = PARKED\<rparr>], next_counter = 3\<rparr>\<rparr>"
  using spawn_empty_task_noop [of Task_empty
      "\<lparr>promises = (\<lambda>a. new_Promise),
        sched = \<lparr>global_queue = [\<lparr>handle = 5\<rparr>],
                 workers = [\<lparr>worker_id = 0, parker = PARKED\<rparr>], next_counter = 3\<rparr>\<rparr>"]
  by (simp add: Task_empty_def)

section \<open>Properties of the async mutex\<close>

lemma suspend_all_locked:
  "locked m \<Longrightarrow> suspend_all hs m = m\<lparr>waiters := waiters m @ hs\<rparr>"
  by (induction hs arbitrary: m) (simp_all add: LockAwaiter_await_suspend_def)

text \<open>\<open>k\<close> unlocks of a locked mutex with at least \<open>k\<close> waiters spawn the first \<open>k\<close>
  waiters, oldest first, and the mutex stays locked.\<close>

lemma unlock_run:
  "locked m \<Longrightarrow> 0 \<notin> set (waiters m) \<Longrightarrow> k \<le> length (waiters m) \<Longrightarrow>
   locked (fst ((unlock ^^ k) (m, r))) \<and>
   waiters (fst ((unlock ^^ k) (m, r))) = drop k (waiters m) \<and>
   global_queue (sched (snd ((unlock ^^ k) (m, r)))) =
     global_queue (sched r) @ map (\<lambda>h. \<lparr>handle = h\<rparr>) (take k (waiters m))"
proof (induction k arbitrary: m r)
  case 0
  then show ?case by simp
next
  case (Suc k)
  then obtain h rest where ws: "waiters m = h # rest"
    by (cases "waiters m") auto
  let ?m1 = "m\<lparr>waiters := rest\<rparr>"
  let ?r1 = "spawn_from_address h r"
  have step: "unlock (m, r) = (?m1, ?r1)"
    by (simp add: unlock_def ws)
  have h0: "h \<noteq> 0" using Suc.prems ws by auto
  have pre: "locked ?m1" "0 \<notin> set (waiters ?m1)" "k \<le> length (waiters ?m1)"
    using Suc.prems ws by auto
  have run: "(unlock ^^ Suc k) (m, r) = (unlock ^^ k) (?m1, ?r1)"
    by (simp add: funpow_swap1 step)
  show ?case
    using Suc.IH [OF pre, of ?r1]
    by (simp only: run) (simp add: ws spawn_from_address_global_queue [OF h0])
qed

text \<open>
  Claim C7. \<open>unlock\<close> with an empty waiter queue sets \<open>locked\<close> to false. With a
  non-empty queue it pops the head waiter and spawns it, and \<open>locked\<close> keeps its
  value (true while the mutex is held). Waiters leave in the order in which
  \<open>await_suspend\<close> enqueued them: on a locked mutex, after the coroutines \<open>hs\<close> have
  suspended, \<open>k\<close> unlocks have put the first \<open>k\<close> waiters on the global queue, oldest
  first, and the mutex is still locked.
\<close>

theorem unlock_baton_passing_fifo:
  "(waiters m = [] \<longrightarrow> unlock (m, r) = (m\<lparr>locked := False\<rparr>, r)) \<and>
   (\<forall>h rest. waiters m = h # rest \<longrightarrow>
      unlock (m, r) = (m\<lparr>waiters := rest\<rparr>, spawn_from_address h r) \<and>
      locked (fst (unlock (m, r))) = locked m) \<and>
   (locked m \<and> 0 \<notin> set (waiters m @ hs) \<longrightarrow>
      waiters (suspend_all hs m) = waiters m @ hs \<and>
      (\<forall>k \<le> length (waiters m @ hs).
         locked (fst ((unlock ^^ k) (suspend_all hs m, r))) \<and>
         waiters (fst ((unlock ^^ k) (suspend_all hs m, r))) = drop k (waiters m @ hs) \<and>
         global_queue (sched (snd ((unlock ^^ k) (suspend_all hs m, r)))) =
           global_queue (sched r) @ map (\<lambda>h. \<lparr>handle = h\<rparr>) (take k (waiters m @ hs))))"
proof (intro conjI impI allI)
  show "unlock (m, r) = (m\<lparr>locked := False\<rparr>, r)" if "waiters m = []"
    using that by (simp add: unlock_def)
next
  fix h rest assume "waiters m = h # rest"
  then show "unlock (m, r) = (m\<lparr>waiters := rest\<rparr>, spawn_from_address h r)"
    and "locked (fst (unlock (m, r))) = locked m"
    by (simp_all add: unlock_def)
next
  assume a: "locked m \<and> 0 \<notin> set (waiters m @ hs)"
  then show "waiters (suspend_all hs m) = waiters m @ hs"
    by (simp add: suspend_all_locked)
next
  fix k
  assume a: "locked m \<and> 0 \<notin> set (waiters m @ hs)" and k: "k \<le> length (waiters m @ hs)"
  let ?m1 = "m\<lparr>waiters := waiters m @ hs\<rparr>"
  have eq: "suspend_all hs m = ?m1" using a by (simp add: suspend_all_locked)
  have pre: "locked ?m1" "0 \<notin> set (waiters ?m1)" "k \<le> length (waiters ?m1)"
    using a k by auto
  from unlock_run [OF pre, of r]
  show "locked (fst ((unlock ^^ k) (suspend_all hs m, r)))"
    and "waiters (fst ((unlock ^^ k) (suspend_all hs m, r))) = drop k (waiters m @ hs)"
    and "global_queue (sched (snd ((unlock ^^ k) (suspend_all hs m, r)))) =
           global_queue (sched r) @ map (\<lambda>h. \<lparr>handle = h\<rparr>) (take k (waiters m @ hs))"
    by (simp_all add: eq)
qed

theorem unlock_baton_passing_fifo_witness:
  "unlock (\<lparr>locked = True, waiters = []\<rparr>, example_runtime)
     = (\<lparr>locked = False, waiters = []\<rparr>, example_runtime) \<and>
   unlock (\<lparr>locked = True, waiters = [11, 12]\<rparr>, example_runtime)
     = (\<lparr>locked = True, waiters = [12]\<rparr>, spawn_from_address 11 example_runtime) \<and>
   waiters (suspend_all [11, 12] \<lparr>locked = True, waiters = []\<rparr>) = [11, 12] \<and>
   locked (fst ((unlock ^^ 2) (suspend_all [11, 12] \<lparr>locked = True, waiters = []\<rparr>,
                                 example_runtime))) \<and>
   global_queue (sched (snd ((unlock ^^ 2)
       (suspend_all [11, 12] \<lparr>locked = True, waiters = []\<rparr>, example_runtime))))
     = [\<lparr>handle = 11\<rparr>, \<lparr>handle = 12\<rparr>]"
proof -
  have vals: "global_queue (sched example_runtime) = []"
    by (simp add: example_runtime_def)
  note a = unlock_baton_passing_fifo
             [of "\<lparr>locked = True, waiters = []\<rparr>" example_runtime "[11, 12]"]
  note b = unlock_baton_passing_fifo
             [of "\<lparr>locked = True, waiters = [11, 12]\<rparr>" example_runtime "[]"]
  from a have a1: "unlock (\<lparr>locked = True, waiters = []\<rparr>, example_runtime)
     = (\<lparr>locked = False, waiters = []\<rparr>, example_runtime)" by simp
  from b have b1: "unlock (\<lparr>locked = True, waiters = [11, 12]\<rparr>, example_runtime)
     = (\<lparr>locked = True, waiters = [12]\<rparr>, spawn_from_address 11 example_runtime)" by simp
  from a have a2: "waiters (suspend_all [11, 12] \<lparr>locked = True, waiters = []\<rparr>) = [11, 12]"
    by simp
  from a have a3: "\<forall>k \<le> 2.
         locked (fst ((unlock ^^ k) (suspend_all [11, 12] \<lparr>locked = True, waiters = []\<rparr>,
                                       example_runtime))) \<and>
         global_queue (sched (snd ((unlock ^^ k)
            (suspend_all [11, 12] \<lparr>locked = True, waiters = []\<rparr>, example_runtime)))) =
           map (\<lambda>h. \<lparr>handle = h\<rparr>) (take k [11, 12])"
    by (simp add: vals)
  from a3 have a4: "locked (fst ((unlock ^^ 2)
         (suspend_all [11, 12] \<lparr>locked = True, waiters = []\<rparr>, example_runtime))) \<and>
     global_queue (sched (snd ((unlock ^^ 2)
         (suspend_all [11, 12] \<lparr>locked = True, waiters = []\<rparr>, example_runtime)))) =
       map (\<lambda>h. \<lparr>handle = h\<rparr>) (take 2 [11, 12])"
    by blast
  from a1 b1 a2 a4 show ?thesis by simp
qed

section \<open>Properties of the channel\<close>

text \<open>A send on a closed channel does not suspend and reports failure.\<close>

lemma send_on_closed_channel_fails:
  "closed (chan w) \<Longrightarrow>
   fst (SendAwaiter_await_suspend self h w) = False \<and>
   SendAwaiter_await_resume self (snd (SendAwaiter_await_suspend self h w)) = False \<and>
   chan (snd (SendAwaiter_await_suspend self h w)) = chan w"
  by (simp add: SendAwaiter_await_suspend_def SendAwaiter_await_resume_def Let_def)

text \<open>A receive on a closed channel with nothing buffered and no sender waiting
  does not suspend and yields none.\<close>

lemma recv_on_closed_empty_channel:
  "closed (chan w) \<Longrightarrow> buffer (chan w) = [] \<Longrightarrow> send_waiters (chan w) = [] \<Longrightarrow>
   fst (RecvAwaiter_await_suspend self h w) = False \<and>
   RecvAwaiter_await_resume self (snd (RecvAwaiter_await_suspend self h w)) = None"
  by (simp add: RecvAwaiter_await_suspend_def RecvAwaiter_await_resume_def Let_def)

text \<open>
  Claim C2, on the code. A sender on an unbuffered channel with no receiver suspends
  (\<open>await_suspend\<close> returns true); the channel is then closed, which spawns the
  sender's coroutine \<open>100\<close>; the resumed sender's \<open>await_resume\<close> returns true
  although its value \<open>42\<close> was delivered to no buffer and no receiver.
\<close>

theorem suspended_sender_reports_success_after_close:
  "(let w1 = Channel_send 500 42 (example_channel_world 0);
        (suspended, w2) = SendAwaiter_await_suspend 500 100 w1;
        w3 = Channel_close w2
    in (suspended, send_waiters (chan w2), closed (chan w3), buffer (chan w3),
        global_queue (sched (runtime w3)), SendAwaiter_await_resume 500 w3))
   = (True, [\<lparr>sender_handle = 100, value_ptr = 500\<rparr>], True, [],
      [\<lparr>handle = 100\<rparr>], True)"
  by (simp add: Channel_send_def example_channel_world_def Channel_new_def
      SendAwaiter_await_suspend_def Channel_close_def SendAwaiter_await_resume_def
      spawn_from_address_global_queue example_runtime_def Let_def)

text \<open>
  Claim C6. On a channel whose state satisfies the invariant (at most \<open>capacity\<close>
  buffered values; no receiver waiter beside a non-empty buffer; no sender waiter
  while the buffer is below capacity), \<open>await_suspend\<close> of a send, \<open>await_suspend\<close>
  of a receive and \<open>close\<close> each leave a state that satisfies it, with the same
  capacity; and none of them turns a true \<open>closed\<close> flag false.
\<close>

theorem channel_operations_preserve_invariant:
  assumes "channel_invariant (chan w)"
  shows "channel_invariant (chan (snd (SendAwaiter_await_suspend self h w))) \<and>
         channel_invariant (chan (snd (RecvAwaiter_await_suspend self h w))) \<and>
         channel_invariant (chan (Channel_close w)) \<and>
         capacity (chan (snd (SendAwaiter_await_suspend self h w))) = capacity (chan w) \<and>
         capacity (chan (snd (RecvAwaiter_await_suspend self h w))) = capacity (chan w) \<and>
         capacity (chan (Channel_close w)) = capacity (chan w) \<and>
         (closed (chan w) \<longrightarrow>
            closed (chan (snd (SendAwaiter_await_suspend self h w))) \<and>
            closed (chan (snd (RecvAwaiter_await_suspend self h w))) \<and>
            closed (chan (Channel_close w)))"
proof -
  note inv = channel_invariant_def buffer_within_capacity_def
    no_receiver_beside_buffer_def no_sender_below_capacity_def
  have s: "channel_invariant (chan (snd (SendAwaiter_await_suspend self h w)))"
    using assms
    by (auto simp: SendAwaiter_await_suspend_def inv Let_def split: list.splits if_splits)
  have r: "channel_invariant (chan (snd (RecvAwaiter_await_suspend self h w)))"
    using assms
    by (auto simp: RecvAwaiter_await_suspend_def inv Let_def split: list.splits if_splits)
  have c: "channel_invariant (chan (Channel_close w))"
    using assms
    by (auto simp: Channel_close_def inv Let_def split: if_splits prod.splits)
  have k: "capacity (chan (snd (SendAwaiter_await_suspend self h w))) = capacity (chan w)"
     "capacity (chan (snd (RecvAwaiter_await_suspend self h w))) = capacity (chan w)"
     "capacity (chan (Channel_close w)) = capacity (chan w)"
    by (auto simp: SendAwaiter_await_suspend_def RecvAwaiter_await_suspend_def
        Channel_close_def Let_def split: list.splits if_splits prod.splits)
  have m: "closed (chan w) \<longrightarrow>
            closed (chan (snd (SendAwaiter_await_suspend self h w))) \<and>
            closed (chan (snd (RecvAwaiter_await_suspend self h w))) \<and>
            closed (chan (Channel_close w))"
    by (auto simp: SendAwaiter_await_suspend_def RecvAwaiter_await_suspend_def
        Channel_close_def Let_def split: list.splits if_splits prod.splits)
  from s r c k m show ?thesis by blast
qed

text \<open>The invariant holds of a new channel, whatever its capacity.\<close>

lemma channel_invariant_new: "channel_invariant (Channel_new k)"
  by (simp add: Channel_new_def channel_invariant_def buffer_within_capacity_def
      no_receiver_beside_buffer_def no_sender_below_capacity_def)

theorem channel_operations_preserve_invariant_witness:
  "channel_invariant (chan (example_channel_world 1)) \<and>
   channel_invariant
     (chan (snd (SendAwaiter_await_suspend 500 100 (example_channel_world 1)))) \<and>
   buffer (chan (snd (SendAwaiter_await_suspend 500 100 (example_channel_world 1)))) = [0] \<and>
   channel_invariant
     (chan (snd (RecvAwaiter_await_suspend 600 200 (example_channel_world 1)))) \<and>
   recv_waiters (chan (snd (RecvAwaiter_await_suspend 600 200 (example_channel_world 1))))
     = [\<lparr>receiver_handle = 200, result_ptr = 600\<rparr>] \<and>
   channel_invariant (chan (Channel_close (example_channel_world 1))) \<and>
   closed (chan (Channel_close (example_channel_world 1)))"
proof -
  have i: "channel_invariant (chan (example_channel_world 1))"
    by (simp add: example_channel_world_def channel_invariant_new)
  from channel_operations_preserve_invariant [OF i, of 500 100]
  have s: "channel_invariant
     (chan (snd (SendAwaiter_await_suspend 500 100 (example_channel_world 1))))"
    by simp
  from channel_operations_preserve_invariant [OF i, of 600 200]
  have r: "channel_invariant
     (chan (snd (RecvAwaiter_await_suspend 600 200 (example_channel_world 1))))"
    and c: "channel_invariant (chan (Channel_close (example_channel_world 1)))"
    by simp_all
  have v: "buffer (chan (snd (SendAwaiter_await_suspend 500 100 (example_channel_world 1))))
             = [0]"
    "recv_waiters (chan (snd (RecvAwaiter_await_suspend 600 200 (example_channel_world 1))))
     = [\<lparr>receiver_handle = 200, result_ptr = 600\<rparr>]"
    "closed (chan (Channel_close (example_channel_world 1)))"
    by (simp_all add: example_channel_world_def Channel_new_def SendAwaiter_await_suspend_def
        RecvAwaiter_await_suspend_def Channel_close_def Let_def)
  from i s r c v show ?thesis by simp
qed

text \<open>
  Claim C10. \<open>close\<close> on a closed channel returns the state it was given: buffer,
  both waiter queues, the flag, the awaiters and the scheduler are unchanged. So a
  second \<open>close\<close> (the destructor's, for one) after a first changes nothing: the
  waiters the first one spawned are not spawned again.
\<close>

theorem close_idempotent:
  "(closed (chan w) \<longrightarrow> Channel_close w = w) \<and>
   closed (chan (Channel_close w)) \<and>
   Channel_close (Channel_close w) = Channel_close w"
  by (auto simp: Channel_close_def Let_def split: prod.splits)

theorem close_idempotent_witness:
  "closed (chan (Channel_close (snd (RecvAwaiter_await_suspend 600 200
             (example_channel_world 0))))) \<and>
   global_queue (sched (runtime (Channel_close (snd (RecvAwaiter_await_suspend 600 200
             (example_channel_world 0)))))) = [\<lparr>handle = 200\<rparr>] \<and>
   Channel_close (Channel_close (snd (RecvAwaiter_await_suspend 600 200
             (example_channel_world 0))))
     = Channel_close (snd (RecvAwaiter_await_suspend 600 200 (example_channel_world 0)))"
proof -
  have q: "global_queue (sched (runtime (Channel_close (snd (RecvAwaiter_await_suspend 600 200
             (example_channel_world 0)))))) = [\<lparr>handle = 200\<rparr>]"
    by (simp add: example_channel_world_def Channel_new_def RecvAwaiter_await_suspend_def
        Channel_close_def spawn_from_address_global_queue example_runtime_def Let_def)
  from close_idempotent
         [of "Channel_close (snd (RecvAwaiter_await_suspend 600 200 (example_channel_world 0)))"]
       close_idempotent
         [of "snd (RecvAwaiter_await_suspend 600 200 (example_channel_world 0))"]
       q
  show ?thesis by simp
qed

section \<open>Properties of the steal deque\<close>

lemma example_deque_slots:
  "Array_get (array example_deque) 0 = 100" "Array_get (array example_deque) 1 = 101"
  by (simp_all add: example_deque_def Array_get_def Array_put_def Array_new_def slot_index_def)

lemma example_deque_fields:
  "top_idx example_deque = 0" "bottom example_deque = 2"
  by (simp_all add: example_deque_def)

text \<open>A steal that finds the deque non-empty leaves it as the thief's
  compare-and-swap from the loaded \<open>top\<close> does.\<close>

lemma steal_is_thief_cas:
  "top_idx q < bottom q \<Longrightarrow> fst (snd (steal q h)) = thief_cas (top_idx q) q"
  by (simp add: steal_def thief_cas_def compare_exchange_top_def Let_def split: prod.splits)

text \<open>
  Claim C4. The owner's \<open>pop\<close> decrements \<open>bottom\<close> and then loads \<open>top\<close>. With
  \<open>top\<close> below the decremented \<open>bottom\<close> it returns the task in the slot at the
  decremented \<open>bottom\<close>, which stays decremented. With \<open>top\<close> equal to it, it makes
  one compare-and-swap on \<open>top\<close>: if \<open>top\<close> still has the loaded value the swap
  succeeds, \<open>bottom\<close> gets its value from before the decrement and the slot's task is
  returned; if a thief has moved \<open>top\<close> in between, \<open>bottom\<close> gets its old value and
  the result is empty. With \<open>top\<close> above the decremented \<open>bottom\<close> the deque is
  left as it was and the result is empty.
\<close>

theorem pop_steps:
  "(top_idx q < bottom q - 1 \<longrightarrow>
      pop thieves q h =
        (Some (fst (from_address (Array_get (array q) (bottom q - 1)) h)),
         q\<lparr>bottom := bottom q - 1\<rparr>, h)) \<and>
   (top_idx q = bottom q - 1 \<and> top_idx (thieves (q\<lparr>bottom := bottom q - 1\<rparr>)) = top_idx q \<longrightarrow>
      pop thieves q h =
        (Some (fst (from_address (Array_get (array q) (bottom q - 1)) h)),
         (thieves (q\<lparr>bottom := bottom q - 1\<rparr>))\<lparr>top_idx := top_idx q + 1, bottom := bottom q\<rparr>,
         h)) \<and>
   (top_idx q = bottom q - 1 \<and> top_idx (thieves (q\<lparr>bottom := bottom q - 1\<rparr>)) \<noteq> top_idx q \<longrightarrow>
      pop thieves q h = (None, (thieves (q\<lparr>bottom := bottom q - 1\<rparr>))\<lparr>bottom := bottom q\<rparr>, h)) \<and>
   (top_idx q > bottom q - 1 \<longrightarrow> pop thieves q h = (None, q, h))"
  by (auto simp: pop_def compare_exchange_top_def from_address_def Task_adopt_def Let_def)

theorem pop_steps_witness:
  "pop id example_deque (\<lambda>a. new_Promise)
     = (Some \<lparr>handle = 101\<rparr>, example_deque\<lparr>bottom := 1\<rparr>, (\<lambda>a. new_Promise)) \<and>
   pop id (example_deque\<lparr>bottom := 1\<rparr>) (\<lambda>a. new_Promise)
     = (Some \<lparr>handle = 100\<rparr>, example_deque\<lparr>top_idx := 1, bottom := 1\<rparr>, (\<lambda>a. new_Promise)) \<and>
   pop (thief_cas 0) (example_deque\<lparr>bottom := 1\<rparr>) (\<lambda>a. new_Promise)
     = (None, example_deque\<lparr>top_idx := 1, bottom := 1\<rparr>, (\<lambda>a. new_Promise)) \<and>
   pop id (example_deque\<lparr>top_idx := 2\<rparr>) (\<lambda>a. new_Promise)
     = (None, example_deque\<lparr>top_idx := 2\<rparr>, (\<lambda>a. new_Promise))"
proof -
  have a: "pop id example_deque (\<lambda>a. new_Promise)
     = (Some \<lparr>handle = 101\<rparr>, example_deque\<lparr>bottom := 1\<rparr>, (\<lambda>a. new_Promise))"
    using pop_steps [of example_deque id "\<lambda>a. new_Promise"]
    by (simp add: example_deque_fields example_deque_slots from_address_nonnull)
  have b: "pop id (example_deque\<lparr>bottom := 1\<rparr>) (\<lambda>a. new_Promise)
     = (Some \<lparr>handle = 100\<rparr>, example_deque\<lparr>top_idx := 1, bottom := 1\<rparr>, (\<lambda>a. new_Promise))"
    using pop_steps [of "example_deque\<lparr>bottom := 1\<rparr>" id "\<lambda>a. new_Promise"]
    by (simp add: example_deque_fields Array_get_def slot_index_def example_deque_def
        Array_put_def Array_new_def from_address_nonnull)
  have c: "pop (thief_cas 0) (example_deque\<lparr>bottom := 1\<rparr>) (\<lambda>a. new_Promise)
     = (None, example_deque\<lparr>top_idx := 1, bottom := 1\<rparr>, (\<lambda>a. new_Promise))"
    using pop_steps [of "example_deque\<lparr>bottom := 1\<rparr>" "thief_cas 0" "\<lambda>a. new_Promise"]
    by (simp add: example_deque_fields thief_cas_def compare_exchange_top_def example_deque_def)
  have d: "pop id (example_deque\<lparr>top_idx := 2\<rparr>) (\<lambda>a. new_Promise)
     = (None, example_deque\<lparr>top_idx := 2\<rparr>, (\<lambda>a. new_Promise))"
    using pop_steps [of "example_deque\<lparr>top_idx := 2\<rparr>" id "\<lambda>a. new_Promise"]
    by (simp add: example_deque_fields)
  from a b c d show ?thesis by simp
qed

section \<open>Properties of epoch-based reclamation\<close>

lemma op_count_step:
  fixes x :: "64 word"
  assumes "unat x < 64"
  shows "unat (x + 1) = unat x + 1" and "\<not> 64 < x + 1"
proof -
  have "unat x + 1 < 2 ^ 64" using assms by simp
  then show u: "unat (x + 1) = unat x + 1"
    by (simp add: unat_add_lem [THEN iffD1])
  show "\<not> 64 < x + 1"
    using assms u by (simp add: word_less_nat_alt)
qed

text \<open>While the counter is below 64, \<open>retire\<close> appends the node to the bin of the
  current global epoch modulo 3, counts, and does nothing else.\<close>

lemma retire_below_threshold:
  assumes "local < length (threads s)" and "unat (op_count (threads s ! local)) < 64"
  shows "global_epoch (retire local p s) = global_epoch s \<and>
         deleted (retire local p s) = deleted s \<and>
         length (threads (retire local p s)) = length (threads s) \<and>
         map active (threads (retire local p s)) = map active (threads s) \<and>
         unat (op_count (threads (retire local p s) ! local)) =
           unat (op_count (threads s ! local)) + 1"
  using assms op_count_step [OF assms(2)]
  by (simp add: retire_def Let_def map_update list_update_same_conv)

lemma retire_appends_to_epoch_bin:
  assumes "local < length (threads s)" and "unat (op_count (threads s ! local)) < 64"
  shows "retire_bins (threads (retire local p s) ! local) (unat (global_epoch s) mod 3) =
           retire_bins (threads s ! local) (unat (global_epoch s) mod 3)
             @ [\<lparr>node_ptr = p, node_deleter = Delete_static_cast\<rparr>]"
  using assms op_count_step [OF assms(2)]
  by (simp add: retire_def Let_def)

text \<open>\<open>try_advance\<close> leaves the manager alone when an active thread is at another
  epoch; otherwise the global epoch grows by one and every thread's bin at index
  (new epoch + 1) modulo 3 is empty afterwards.\<close>

lemma try_advance_blocked:
  "list_ex (lagging (global_epoch m)) (threads m) \<Longrightarrow> try_advance l m = m"
  by (simp add: try_advance_def)

lemma try_advance_advances:
  assumes "\<not> list_ex (lagging (global_epoch m)) (threads m)"
  shows "global_epoch (try_advance l m) = global_epoch m + 1"
    and "list_all (\<lambda>t. retire_bins t (unat (global_epoch m + 1 + 1) mod 3) = [])
           (threads (try_advance l m))"
  using assms by (simp_all add: try_advance_def Let_def list_all_iff clean_bin_def)

lemma retire_run:
  assumes "local < length (threads m)" and "unat (op_count (threads m ! local)) + n \<le> 64"
  shows "global_epoch ((retire local p ^^ n) m) = global_epoch m \<and>
         deleted ((retire local p ^^ n) m) = deleted m \<and>
         length (threads ((retire local p ^^ n) m)) = length (threads m) \<and>
         map active (threads ((retire local p ^^ n) m)) = map active (threads m) \<and>
         unat (op_count (threads ((retire local p ^^ n) m) ! local)) =
           unat (op_count (threads m ! local)) + n"
  using assms
proof (induction n)
  case 0
  then show ?case by simp
next
  case (Suc n)
  let ?s = "(retire local p ^^ n) m"
  have ih: "global_epoch ?s = global_epoch m \<and> deleted ?s = deleted m \<and>
         length (threads ?s) = length (threads m) \<and>
         map active (threads ?s) = map active (threads m) \<and>
         unat (op_count (threads ?s ! local)) = unat (op_count (threads m ! local)) + n"
    using Suc by simp
  have a: "local < length (threads ?s)" using ih Suc.prems by simp
  have b: "unat (op_count (threads ?s ! local)) < 64" using ih Suc.prems by simp
  from retire_below_threshold [OF a b, of p] ih
  show ?case by simp
qed

text \<open>
  Claim C5, on the code. One thread is registered and is outside any critical
  section, so an attempt to advance would succeed at once. After 64 retirements
  the global epoch is still 0 and the thread's counter is 64: no attempt was made,
  although \<open>try_advance\<close> on that state advances the epoch. The attempt comes with
  the 65th retirement.
\<close>

theorem retire_attempts_advance_on_65th:
  "global_epoch ((retire 0 7 ^^ 64) example_ebr) = 0 \<and>
   op_count (threads ((retire 0 7 ^^ 64) example_ebr) ! 0) = 64 \<and>
   global_epoch (try_advance 0 ((retire 0 7 ^^ 64) example_ebr)) = 1 \<and>
   global_epoch (retire 0 7 ((retire 0 7 ^^ 64) example_ebr)) = 1"
proof -
  let ?s = "(retire 0 7 ^^ 64) example_ebr"
  have init: "threads example_ebr = [LocalState_new]" "global_epoch example_ebr = 0"
    by (simp_all add: example_ebr_def register_thread_def EbrManager_new_def)
  have run: "global_epoch ?s = 0 \<and> length (threads ?s) = 1 \<and>
      map active (threads ?s) = [False] \<and> unat (op_count (threads ?s ! 0)) = 64"
    using retire_run [of 0 example_ebr 64 7]
    by (simp add: init LocalState_new_def)
  then obtain x where x: "threads ?s = [x]"
    by (cases "threads ?s") auto
  have ax: "\<not> active x" using run x by simp
  have "unat (op_count x) = unat (64 :: 64 word)" using run x by simp
  then have ox: "op_count x = 64" by (simp only: word_unat_eq_iff)
  have e: "global_epoch ?s = 0" using run by simp
  have t: "global_epoch (try_advance 0 ?s) = 1"
    by (simp add: try_advance_def x ax e lagging_def)
  have r: "global_epoch (retire 0 7 ?s) = 1"
    by (simp add: retire_def try_advance_def x ax ox e lagging_def Let_def)
  from e ox x t r show ?thesis by simp
qed

section \<open>Properties of the poller\<close>

text \<open>Both loops call the callback once, in order, for every reported event they
  do not take for the self-wake event: the epoll loop for every event whose data
  reads as a non-null pointer, the kqueue loop for every event that is not
  \<open>EVFILT_USER\<close> and has a non-null \<open>udata\<close>.\<close>

lemma dispatch_callbacks:
  "snd (dispatch evs log_callback (p, log)) =
     log @ filter (\<lambda>u. u \<noteq> 0) (map (\<lambda>e. data_ptr (data e)) evs)"
  by (induction evs arbitrary: p log) (simp_all add: log_callback_def)

lemma kqueue_dispatch_callbacks:
  "kqueue_dispatch evs log_callback log =
     log @ map kev_udata
             (filter (\<lambda>e. kev_filter e \<noteq> EVFILT_USER \<and> kev_udata e \<noteq> 0) evs)"
  by (induction evs arbitrary: log) (simp_all add: log_callback_def)

text \<open>The eventfd is registered with its descriptor stored through the \<open>fd\<close>
  member, and that storage read as a pointer is the descriptor, not null.\<close>

lemma wake_fd_registration:
  "interest (Poller_init efd wfd) wfd =
     Some \<lparr>item_event = \<lparr>events = EPOLLIN OR EPOLLET, data = data_set_fd wfd 0\<rparr>,
           armed = True\<rparr>"
  by (simp add: Poller_init_def epoll_ctl_add_def zero_event_def Let_def)

lemma wake_fd_data_ptr:
  assumes "0 < wfd" "wfd < 2 ^ 31"
  shows "data_ptr (data_set_fd wfd 0) = nat wfd"
proof -
  have a: "take_bit 32 wfd = wfd" using assms by (simp add: take_bit_int_eq_self)
  have b: "take_bit 64 wfd = wfd" using assms by (simp add: take_bit_int_eq_self)
  have "data_set_fd wfd 0 = take_bit 32 (word_of_int wfd :: 64 word)"
    by (simp add: data_set_fd_def take_bit_eq_mask)
  also have "\<dots> = word_of_int (take_bit 32 wfd)"
    by (simp only: take_bit_of_int)
  finally have "data_set_fd wfd 0 = word_of_int wfd" using a by simp
  then show ?thesis
    using b by (simp add: data_ptr_def unat_eq_nat_uint uint_word_of_int_eq)
qed

text \<open>
  Claim C3, on the code (epoll variant). The poller is built on the descriptors 3
  (epoll) and 4 (eventfd); a read registration for descriptor 7 carries the user
  pointer 1000; \<open>wake\<close> is called. A \<open>wait\<close> for which the eventfd and descriptor 7
  are ready reports two events and calls the callback twice: first with 4, the
  eventfd's descriptor read as a pointer, for the self-wake event, then with 1000.
  The eventfd is not read: its counter is still 1 afterwards.
\<close>

theorem self_wake_event_reaches_callback:
  "(let p = wake (add_read 7 1000 (Poller_init 3 4))
    in case wait (- 1) log_callback [4, 7] (p, []) of
         (n, p', log) \<Rightarrow> (eventfd_counter p, n, log, eventfd_counter p'))
   = (1, 2, [4, 1000], 1)"
  by (simp add: wake_def add_read_def add_event_def Poller_init_def wait_def zero_event_def
      epoll_ctl_add_def epoll_ctl_mod_def data_set_fd_def data_set_ptr_def data_ptr_def
      mask_eq_exp_minus_1 EPOLLIN_def EPOLLET_def EPOLLONESHOT_def EPOLLRDHUP_def
      log_callback_def read_wake_fd_def Let_def)

section \<open>Properties of the reactor's registrations\<close>

lemma fetch_add_ref_count: "ref_count (fetch_add_ref a h a) = ref_count (h a) + 1"
  by (simp add: fetch_add_ref_def)

text \<open>Each I/O awaiter adds one to the awaiting coroutine's count when it
  registers; the sleep awaiter leaves every count as it was.\<close>

lemma io_registration_adds_one:
  "ref_count (promises (snd (AsyncReadAwaiter_await_suspend fd h (r, rt))) h)
     = ref_count (promises rt h) + 1"
  "ref_count (promises (snd (AsyncWriteAwaiter_await_suspend fd h (r, rt))) h)
     = ref_count (promises rt h) + 1"
  "ref_count (promises (snd (AsyncAcceptAwaiter_await_suspend fd h (r, rt))) h)
     = ref_count (promises rt h) + 1"
  by (simp_all add: AsyncReadAwaiter_await_suspend_def AsyncWriteAwaiter_await_suspend_def
      AsyncAcceptAwaiter_await_suspend_def fetch_add_ref_count)

lemma sleep_registration_adds_nothing:
  "snd (AsyncSleep_await_suspend now duration h (r, rt)) = rt"
  by (simp add: AsyncSleep_await_suspend_def)

text \<open>Firing, by the I/O handler or by the timer loop, changes no count: the
  pointer is adopted and handed to \<open>spawn\<close>. The handle that comes out of the
  queue takes one from the count when it is dropped.\<close>

lemma io_handler_promises: "promises (io_handler u rt) = promises rt"
  by (simp add: io_handler_def)

lemma fire_timers_promises: "promises (snd (fire_timers now ts rt)) = promises rt"
  by (induction ts arbitrary: rt) simp_all

lemma Task_dtor_decrements:
  "handle t \<noteq> 0 \<Longrightarrow> ref_count (Task_dtor t h (handle t)) = ref_count (h (handle t)) - 1"
  by (simp add: Task_dtor_def dec_ref_def destroy_def Let_def)

text \<open>An I/O registration at work: the count of coroutine 100 goes from 1 to 2 at
  registration; one turn of the reactor loop with descriptor 7 ready puts its handle
  on the global queue; dropping that handle brings the count back to 1 and destroys
  nothing.\<close>

lemma io_registration_balanced_example:
  "(let st1 = AsyncReadAwaiter_await_suspend 7 100 (example_reactor, example_runtime);
        st2 = loop_iteration (0, [7], 0) st1;
        (t, s3) = pop_global (sched (snd st2));
        h4 = (case t of None \<Rightarrow> promises (snd st2)
              | Some task \<Rightarrow> Task_dtor task (promises (snd st2)))
    in (ref_count (promises example_runtime 100), ref_count (promises (snd st1) 100),
        global_queue (sched (snd st2)), t, ref_count (h4 100), destroyed (h4 100)))
   = (1, 2, [\<lparr>handle = 100\<rparr>], Some \<lparr>handle = 100\<rparr>, 1, 0)"
  by (simp add: AsyncReadAwaiter_await_suspend_def register_read_def add_read_def
      add_event_def Poller_init_def zero_event_def epoll_ctl_add_def epoll_ctl_mod_def
      data_set_fd_def data_set_ptr_def data_ptr_def mask_eq_exp_minus_1
      EPOLLIN_def EPOLLET_def EPOLLONESHOT_def EPOLLRDHUP_def
      loop_iteration_def wait_def io_handler_def example_reactor_def
      example_runtime_def new_Promise_def fetch_add_ref_def spawn_from_address_global_queue
      pop_global_def Task_dtor_def dec_ref_def destroy_def Let_def)

text \<open>
  Claim C1, on the code. Coroutine 100 is run by a worker whose handle is the only
  counted reference to its promise (count 1). It awaits a sleep of 50 at time 0: the
  timer is registered and the count is still 1, so the registration added nothing.
  The worker's handle is dropped when \<open>resume\<close> returns: the count falls to 0 and
  the frame is destroyed while its address sits in the timer heap. At time 50 the
  timer loop adopts that address and spawns it; the handle that comes out of the
  global queue refers to the destroyed frame, and dropping it takes the count to
  \<open>-1\<close>.
\<close>

theorem sleep_registration_unbalanced:
  "(let st1 = AsyncSleep_await_suspend 0 50 100 (example_reactor, example_runtime);
        rt1 = (snd st1)\<lparr>promises := Task_dtor \<lparr>handle = 100\<rparr> (promises (snd st1))\<rparr>;
        (ts, rt2) = fire_timers 50 (timers (fst st1)) rt1;
        (t, s3) = pop_global (sched rt2);
        h4 = (case t of None \<Rightarrow> promises rt2 | Some task \<Rightarrow> Task_dtor task (promises rt2))
    in (ref_count (promises example_runtime 100), ref_count (promises (snd st1) 100),
        timers (fst st1), ref_count (promises rt1 100), destroyed (promises rt1 100),
        global_queue (sched rt2), t, ref_count (h4 100), destroyed (h4 100)))
   = (1, 1, [\<lparr>expiry = 50, timer_handle = 100\<rparr>], 0, 1,
      [\<lparr>handle = 100\<rparr>], Some \<lparr>handle = 100\<rparr>, - 1, 1)"
  by (simp add: AsyncSleep_await_suspend_def add_timer_def example_reactor_def
      example_runtime_def new_Promise_def spawn_from_address_global_queue
      pop_global_def Task_dtor_def dec_ref_def destroy_def wake_def Let_def)

end
